theory Spec2Isabelle
  imports Main "HOL-Library.Word"
begin

unbundle bit_operations_syntax

section \<open>Machine types\<close>

text \<open>
  The simulator's \<^verbatim>\<open>BYTE\<close> is an unsigned 8-bit and \<^verbatim>\<open>WORD\<close> an unsigned 16-bit
  integer. Variables that the source declares as \<^verbatim>\<open>int\<close> (the flag register
  \<^verbatim>\<open>F\<close> among them: "normally 8-Bit, but int is faster") are modelled as \<^typ>\<open>int\<close>;
  none of the operations below can overflow a C \<^verbatim>\<open>int\<close>.
\<close>

type_synonym BYTE = "8 word"
type_synonym WORD = "16 word"

text \<open>The implicit conversion of an \<^verbatim>\<open>int\<close> expression stored into a \<^verbatim>\<open>BYTE\<close>.\<close>

definition to_BYTE :: "int \<Rightarrow> BYTE" where
  "to_BYTE i = word_of_int i"

section \<open>Flag bits\<close>

text \<open>
  Modelled from the spec: the header that defines the flag masks (\<^verbatim>\<open>simdefs.h\<close>) is
  not part of the sources at hand. The data model lists the bits of \<^verbatim>\<open>F\<close> from bit 7
  down to bit 0 as S, Z, Y (undocumented bit 5), H, X (undocumented bit 3), P/V, N, C.
\<close>

definition S_FLAG :: int where "S_FLAG = 128"
definition Z_FLAG :: int where "Z_FLAG = 64"
definition Y_FLAG :: int where "Y_FLAG = 32"
definition H_FLAG :: int where "H_FLAG = 16"
definition X_FLAG :: int where "X_FLAG = 8"
definition P_FLAG :: int where "P_FLAG = 4"
definition N_FLAG :: int where "N_FLAG = 2"
definition C_FLAG :: int where "C_FLAG = 1"

section \<open>Precomputed flag tables (simglb.c)\<close>

text \<open>
  The tables are transcribed entry by entry. As in the source, the names \<open>S\<close>, \<open>Z\<close>,
  \<open>Y\<close>, \<open>X\<close>, \<open>P\<close> stand for the flag masks inside a table and \<open>n\<close> (the
  source writes \<^verbatim>\<open>_\<close>) for 0.
\<close>

definition parity :: "int list" where
  "parity = [
     0, 1, 1, 0, 1, 0, 0, 1,
     1, 0, 0, 1, 0, 1, 1, 0,
     1, 0, 0, 1, 0, 1, 1, 0,
     0, 1, 1, 0, 1, 0, 0, 1,
     1, 0, 0, 1, 0, 1, 1, 0,
     0, 1, 1, 0, 1, 0, 0, 1,
     0, 1, 1, 0, 1, 0, 0, 1,
     1, 0, 0, 1, 0, 1, 1, 0,
     1, 0, 0, 1, 0, 1, 1, 0,
     0, 1, 1, 0, 1, 0, 0, 1,
     0, 1, 1, 0, 1, 0, 0, 1,
     1, 0, 0, 1, 0, 1, 1, 0,
     0, 1, 1, 0, 1, 0, 0, 1,
     1, 0, 0, 1, 0, 1, 1, 0,
     1, 0, 0, 1, 0, 1, 1, 0,
     0, 1, 1, 0, 1, 0, 0, 1,
     1, 0, 0, 1, 0, 1, 1, 0,
     0, 1, 1, 0, 1, 0, 0, 1,
     0, 1, 1, 0, 1, 0, 0, 1,
     1, 0, 0, 1, 0, 1, 1, 0,
     0, 1, 1, 0, 1, 0, 0, 1,
     1, 0, 0, 1, 0, 1, 1, 0,
     1, 0, 0, 1, 0, 1, 1, 0,
     0, 1, 1, 0, 1, 0, 0, 1,
     0, 1, 1, 0, 1, 0, 0, 1,
     1, 0, 0, 1, 0, 1, 1, 0,
     1, 0, 0, 1, 0, 1, 1, 0,
     0, 1, 1, 0, 1, 0, 0, 1,
     1, 0, 0, 1, 0, 1, 1, 0,
     0, 1, 1, 0, 1, 0, 0, 1,
     0, 1, 1, 0, 1, 0, 0, 1,
     1, 0, 0, 1, 0, 1, 1, 0]"

definition szp_flags :: "BYTE list" where
  "szp_flags = (let n = 0; S = S_FLAG; Z = Z_FLAG; P = P_FLAG in map to_BYTE [
     Z OR P, n, n, P, n, P, P, n,
     n, P, P, n, P, n, n, P,
     n, P, P, n, P, n, n, P,
     P, n, n, P, n, P, P, n,
     n, P, P, n, P, n, n, P,
     P, n, n, P, n, P, P, n,
     P, n, n, P, n, P, P, n,
     n, P, P, n, P, n, n, P,
     n, P, P, n, P, n, n, P,
     P, n, n, P, n, P, P, n,
     P, n, n, P, n, P, P, n,
     n, P, P, n, P, n, n, P,
     P, n, n, P, n, P, P, n,
     n, P, P, n, P, n, n, P,
     n, P, P, n, P, n, n, P,
     P, n, n, P, n, P, P, n,
     S, S OR P, S OR P, S, S OR P, S, S, S OR P,
     S OR P, S, S, S OR P, S, S OR P, S OR P, S,
     S OR P, S, S, S OR P, S, S OR P, S OR P, S,
     S, S OR P, S OR P, S, S OR P, S, S, S OR P,
     S OR P, S, S, S OR P, S, S OR P, S OR P, S,
     S, S OR P, S OR P, S, S OR P, S, S, S OR P,
     S, S OR P, S OR P, S, S OR P, S, S, S OR P,
     S OR P, S, S, S OR P, S, S OR P, S OR P, S,
     S OR P, S, S, S OR P, S, S OR P, S OR P, S,
     S, S OR P, S OR P, S, S OR P, S, S, S OR P,
     S, S OR P, S OR P, S, S OR P, S, S, S OR P,
     S OR P, S, S, S OR P, S, S OR P, S OR P, S,
     S, S OR P, S OR P, S, S OR P, S, S, S OR P,
     S OR P, S, S, S OR P, S, S OR P, S OR P, S,
     S OR P, S, S, S OR P, S, S OR P, S OR P, S,
     S, S OR P, S OR P, S, S OR P, S, S, S OR P])"

definition szyx_flags :: "BYTE list" where
  "szyx_flags = (let n = 0; S = S_FLAG; Z = Z_FLAG; Y = Y_FLAG; X = X_FLAG in map to_BYTE [
     Z, n, n, n, n, n, n, n,
     X, X, X, X, X, X, X, X,
     n, n, n, n, n, n, n, n,
     X, X, X, X, X, X, X, X,
     Y, Y, Y, Y, Y, Y, Y, Y,
     Y OR X, Y OR X, Y OR X, Y OR X, Y OR X, Y OR X, Y OR X, Y OR X,
     Y, Y, Y, Y, Y, Y, Y, Y,
     Y OR X, Y OR X, Y OR X, Y OR X, Y OR X, Y OR X, Y OR X, Y OR X,
     n, n, n, n, n, n, n, n,
     X, X, X, X, X, X, X, X,
     n, n, n, n, n, n, n, n,
     X, X, X, X, X, X, X, X,
     Y, Y, Y, Y, Y, Y, Y, Y,
     Y OR X, Y OR X, Y OR X, Y OR X, Y OR X, Y OR X, Y OR X, Y OR X,
     Y, Y, Y, Y, Y, Y, Y, Y,
     Y OR X, Y OR X, Y OR X, Y OR X, Y OR X, Y OR X, Y OR X, Y OR X,
     S, S, S, S, S, S, S, S,
     S OR X, S OR X, S OR X, S OR X, S OR X, S OR X, S OR X, S OR X,
     S, S, S, S, S, S, S, S,
     S OR X, S OR X, S OR X, S OR X, S OR X, S OR X, S OR X, S OR X,
     S OR Y, S OR Y, S OR Y, S OR Y, S OR Y, S OR Y, S OR Y, S OR Y,
     S OR Y OR X, S OR Y OR X, S OR Y OR X, S OR Y OR X, S OR Y OR X, S OR Y OR X, S OR Y OR X, S OR Y OR X,
     S OR Y, S OR Y, S OR Y, S OR Y, S OR Y, S OR Y, S OR Y, S OR Y,
     S OR Y OR X, S OR Y OR X, S OR Y OR X, S OR Y OR X, S OR Y OR X, S OR Y OR X, S OR Y OR X, S OR Y OR X,
     S, S, S, S, S, S, S, S,
     S OR X, S OR X, S OR X, S OR X, S OR X, S OR X, S OR X, S OR X,
     S, S, S, S, S, S, S, S,
     S OR X, S OR X, S OR X, S OR X, S OR X, S OR X, S OR X, S OR X,
     S OR Y, S OR Y, S OR Y, S OR Y, S OR Y, S OR Y, S OR Y, S OR Y,
     S OR Y OR X, S OR Y OR X, S OR Y OR X, S OR Y OR X, S OR Y OR X, S OR Y OR X, S OR Y OR X, S OR Y OR X,
     S OR Y, S OR Y, S OR Y, S OR Y, S OR Y, S OR Y, S OR Y, S OR Y,
     S OR Y OR X, S OR Y OR X, S OR Y OR X, S OR Y OR X, S OR Y OR X, S OR Y OR X, S OR Y OR X, S OR Y OR X])"

definition szyxp_flags :: "BYTE list" where
  "szyxp_flags =
    (let n = 0; S = S_FLAG; Z = Z_FLAG; Y = Y_FLAG; X = X_FLAG; P = P_FLAG in map to_BYTE [
     Z OR P, n, n, P, n, P, P, n,
     X, X OR P, X OR P, X, X OR P, X, X, X OR P,
     n, P, P, n, P, n, n, P,
     X OR P, X, X, X OR P, X, X OR P, X OR P, X,
     Y, Y OR P, Y OR P, Y, Y OR P, Y, Y, Y OR P,
     Y OR X OR P, Y OR X, Y OR X, Y OR X OR P, Y OR X, Y OR X OR P, Y OR X OR P, Y OR X,
     Y OR P, Y, Y, Y OR P, Y, Y OR P, Y OR P, Y,
     Y OR X, Y OR X OR P, Y OR X OR P, Y OR X, Y OR X OR P, Y OR X, Y OR X, Y OR X OR P,
     n, P, P, n, P, n, n, P,
     X OR P, X, X, X OR P, X, X OR P, X OR P, X,
     P, n, n, P, n, P, P, n,
     X, X OR P, X OR P, X, X OR P, X, X, X OR P,
     Y OR P, Y, Y, Y OR P, Y, Y OR P, Y OR P, Y,
     Y OR X, Y OR X OR P, Y OR X OR P, Y OR X, Y OR X OR P, Y OR X, Y OR X, Y OR X OR P,
     Y, Y OR P, Y OR P, Y, Y OR P, Y, Y, Y OR P,
     Y OR X OR P, Y OR X, Y OR X, Y OR X OR P, Y OR X, Y OR X OR P, Y OR X OR P, Y OR X,
     S, S OR P, S OR P, S, S OR P, S, S, S OR P,
     S OR X OR P, S OR X, S OR X, S OR X OR P, S OR X, S OR X OR P, S OR X OR P, S OR X,
     S OR P, S, S, S OR P, S, S OR P, S OR P, S,
     S OR X, S OR X OR P, S OR X OR P, S OR X, S OR X OR P, S OR X, S OR X, S OR X OR P,
     S OR Y OR P, S OR Y, S OR Y, S OR Y OR P, S OR Y, S OR Y OR P, S OR Y OR P, S OR Y,
     S OR Y OR X, S OR Y OR X OR P, S OR Y OR X OR P, S OR Y OR X, S OR Y OR X OR P, S OR Y OR X, S OR Y OR X, S OR Y OR X OR P,
     S OR Y, S OR Y OR P, S OR Y OR P, S OR Y, S OR Y OR P, S OR Y, S OR Y, S OR Y OR P,
     S OR Y OR X OR P, S OR Y OR X, S OR Y OR X, S OR Y OR X OR P, S OR Y OR X, S OR Y OR X OR P, S OR Y OR X OR P, S OR Y OR X,
     S OR P, S, S, S OR P, S, S OR P, S OR P, S,
     S OR X, S OR X OR P, S OR X OR P, S OR X, S OR X OR P, S OR X, S OR X, S OR X OR P,
     S, S OR P, S OR P, S, S OR P, S, S, S OR P,
     S OR X OR P, S OR X, S OR X, S OR X OR P, S OR X, S OR X OR P, S OR X OR P, S OR X,
     S OR Y, S OR Y OR P, S OR Y OR P, S OR Y, S OR Y OR P, S OR Y, S OR Y, S OR Y OR P,
     S OR Y OR X OR P, S OR Y OR X, S OR Y OR X, S OR Y OR X OR P, S OR Y OR X, S OR Y OR X OR P, S OR Y OR X OR P, S OR Y OR X,
     S OR Y OR P, S OR Y, S OR Y, S OR Y OR P, S OR Y, S OR Y OR P, S OR Y OR P, S OR Y,
     S OR Y OR X, S OR Y OR X OR P, S OR Y OR X OR P, S OR Y OR X, S OR Y OR X OR P, S OR Y OR X, S OR Y OR X, S OR Y OR X OR P])"

text \<open>
  A table lookup \<^verbatim>\<open>tab[r]\<close> with a \<^verbatim>\<open>BYTE\<close> index; the value is promoted to
  \<^verbatim>\<open>int\<close> where it is used, as C does.
\<close>

definition lookup :: "BYTE list \<Rightarrow> BYTE \<Rightarrow> int" where
  "lookup tab r = uint (tab ! unat r)"

text \<open>The number of 1-bits of a byte.\<close>

definition popcount :: "BYTE \<Rightarrow> nat" where
  "popcount r = length (filter (bit r) [0..<8])"

section \<open>Constants of the missing header\<close>

text \<open>
  Modelled from the spec: \<^verbatim>\<open>simdefs.h\<close>, which defines the following macros, is not
  part of the sources at hand. The spec names two CPU models (Z80 and I8080), the run
  states \<open>Stopped\<close>, \<open>ContinRun\<close>, \<open>ModelSwitch\<close>, and the error kinds \<open>None\<close> and
  \<open>PowerOff\<close>, without giving numbers. The source stores them in plain integers
  (\<^verbatim>\<open>int cpu\<close>, \<^verbatim>\<open>BYTE cpu_state\<close>, \<^verbatim>\<open>int cpu_error\<close>) and combines
  \<^verbatim>\<open>cpu_state\<close> bitwise elsewhere, so they are integer constants here too. The
  values are pairwise distinct within each group; nothing below depends on more than
  that.
\<close>

definition Z80 :: int where "Z80 = 1"
definition I8080 :: int where "I8080 = 2"

definition STOPPED :: BYTE where "STOPPED = 0"
definition CONTIN_RUN :: BYTE where "CONTIN_RUN = 1"
definition MODEL_SWITCH :: BYTE where "MODEL_SWITCH = 8"

definition NONE :: int where "NONE = 0"
definition POWEROFF :: int where "POWEROFF = 255"

text \<open>
  Modelled from the spec: the positions of the front-panel switch
  (\<^verbatim>\<open>frontpanel.h\<close>) and the masks of the bus-status byte are defined in headers that
  are not part of the sources. The spec lists the status flags (M1, MEMR, WO among them)
  without positions; the layout of the 8080 status word is used. Nothing below depends
  on more than \<open>FP_SW_DOWN \<noteq> FP_SW_UP\<close>.
\<close>

definition FP_SW_DOWN :: int where "FP_SW_DOWN = 0"
definition FP_SW_UP :: int where "FP_SW_UP = 2"

definition CPU_WO :: BYTE where "CPU_WO = 2"
definition CPU_M1 :: BYTE where "CPU_M1 = 32"
definition CPU_MEMR :: BYTE where "CPU_MEMR = 128"

text \<open>
  Modelled from the spec: the type \<^verbatim>\<open>BusDMA_t\<close> is declared in a missing header;
  the spec gives the bus modes as None, Read, Write, ReadWrite.
\<close>

datatype BusDMA_t = BUS_DMA_NONE | BUS_DMA_READ | BUS_DMA_WRITE | BUS_DMA_READWRITE

type_synonym Tstates_t = "64 word"

text \<open>
  A DMA bus master is a pointer to a function that takes the bus acknowledge
  (a \<^verbatim>\<open>BYTE\<close>) and returns the T-states it used; \<open>None\<close> is the
  \<^verbatim>\<open>NULL\<close> pointer.
\<close>

type_synonym bus_master_t = "(BYTE \<Rightarrow> Tstates_t) option"

section \<open>Global state (simglb.c, simctl.c)\<close>

text \<open>
  The simulator keeps its state in global variables; the record below collects the ones
  the modelled functions read or write, together with the rest of the register file.
  The source's trailing underscore (\<^verbatim>\<open>A_\<close>, \<^verbatim>\<open>F_\<close>, \<^verbatim>\<open>R_\<close>) is written as a
  prime. The last fields are the front-panel variables of the Altair and Cromemco
  control modules.
\<close>

record globals =
  cpu :: int
  A :: BYTE
  B :: BYTE
  C :: BYTE
  D :: BYTE
  E :: BYTE
  H :: BYTE
  L :: BYTE
  F :: int
  IX :: WORD
  IY :: WORD
  WZ :: WORD
  A' :: BYTE
  B' :: BYTE
  C' :: BYTE
  D' :: BYTE
  E' :: BYTE
  H' :: BYTE
  L' :: BYTE
  I :: BYTE
  R :: BYTE
  R' :: BYTE
  F' :: int
  PC :: WORD
  SP :: WORD
  IFF :: BYTE
  T :: Tstates_t
  cpu_bus :: BYTE
  cpu_state :: BYTE
  cpu_error :: int
  int_mode :: int
  int_nmi :: int
  int_int :: int
  int_data :: int
  int_protection :: int
  bus_request :: BYTE
  bus_mode :: BusDMA_t
  dma_bus_master :: bus_master_t
  f_flag :: int
  power :: int
  cpu_switch :: int
  fp_led_wait :: BYTE
  fp_led_speed :: BYTE
  fp_led_address :: WORD
  fp_led_data :: BYTE
  fp_led_output :: BYTE

section \<open>CPU handling (simcore.c)\<close>

text \<open>
  The model is the build with both CPU models and the undocumented flags compiled in
  (neither \<^verbatim>\<open>EXCLUDE_Z80\<close> nor \<^verbatim>\<open>EXCLUDE_I8080\<close>, \<^verbatim>\<open>UNDOC_FLAGS\<close> and
  \<^verbatim>\<open>FLAG_TABLES\<close> defined), the only one in which \<^verbatim>\<open>switch_cpu\<close> exists.

  \<^verbatim>\<open>init_cpu\<close> calls \<^verbatim>\<open>rand()\<close> twenty times. The argument \<open>rand\<close> gives
  the results of these calls in order: \<open>rand k\<close> is what the \<open>k\<close>-th call returns, a
  non-negative number.
\<close>

definition init_cpu :: "(nat \<Rightarrow> nat) \<Rightarrow> globals \<Rightarrow> globals" where
  "init_cpu rand s =
    (let s1 = s\<lparr>PC := 0,
                SP := of_nat (rand 0 mod 65536),
                A := of_nat (rand 1 mod 256),
                B := of_nat (rand 2 mod 256),
                C := of_nat (rand 3 mod 256),
                D := of_nat (rand 4 mod 256),
                E := of_nat (rand 5 mod 256),
                H := of_nat (rand 6 mod 256),
                L := of_nat (rand 7 mod 256),
                F := int (rand 8 mod 256)\<rparr>;
         s2 = s1\<lparr>I := 0,
                 A' := of_nat (rand 9 mod 256),
                 B' := of_nat (rand 10 mod 256),
                 C' := of_nat (rand 11 mod 256),
                 D' := of_nat (rand 12 mod 256),
                 E' := of_nat (rand 13 mod 256),
                 H' := of_nat (rand 14 mod 256),
                 L' := of_nat (rand 15 mod 256),
                 F' := int (rand 16 mod 256),
                 IX := of_nat (rand 17 mod 65536),
                 IY := of_nat (rand 18 mod 65536),
                 WZ := of_nat (rand 19 mod 65536)\<rparr>
     in if cpu s2 = I8080
        then s2\<lparr>F := (F s2 AND NOT (Y_FLAG OR X_FLAG)) OR N_FLAG\<rparr>
        else s2)"

definition reset_cpu :: "globals \<Rightarrow> globals" where
  "reset_cpu s =
     s\<lparr>int_protection := 0, int_int := 0, IFF := 0,
       int_data := - 1,
       PC := 0,
       I := 0,
       R := 0, R' := 0,
       int_mode := 0, int_nmi := 0\<rparr>"

definition switch_cpu :: "int \<Rightarrow> globals \<Rightarrow> globals" where
  "switch_cpu new_cpu s =
    (if cpu s \<noteq> new_cpu
     then (let s1 = (if new_cpu = Z80 then s
                     else if new_cpu = I8080
                     then s\<lparr>F := (F s AND NOT (Y_FLAG OR X_FLAG)) OR N_FLAG\<rparr>
                     else s)
           in s1\<lparr>cpu := new_cpu, cpu_state := MODEL_SWITCH\<rparr>)
     else s)"

text \<open>
  The two executors \<^verbatim>\<open>cpu_z80\<close> and \<^verbatim>\<open>cpu_8080\<close> are external to this module;
  they are arguments of the model. An executor that does not return yields \<open>None\<close>.
  \<open>run_dispatch\<close> is the \<^verbatim>\<open>switch (cpu)\<close> at the head of the loop body of
  \<^verbatim>\<open>run_cpu\<close>, \<open>run_loop\<close> its \<^verbatim>\<open>for (;;)\<close> loop.
\<close>

type_synonym executor = "globals \<Rightarrow> globals option"

definition run_dispatch :: "executor \<Rightarrow> executor \<Rightarrow> globals \<Rightarrow> globals option" where
  "run_dispatch cpu_z80 cpu_8080 s =
    (if cpu s = Z80 then cpu_z80 s
     else if cpu s = I8080 then cpu_8080 s
     else Some s)"

partial_function (option) run_loop :: "executor \<Rightarrow> executor \<Rightarrow> globals \<Rightarrow> globals option" where
  "run_loop cpu_z80 cpu_8080 s =
     Option.bind (run_dispatch cpu_z80 cpu_8080 s)
       (\<lambda>s1. if cpu_state s1 = MODEL_SWITCH
             then run_loop cpu_z80 cpu_8080 (s1\<lparr>cpu_state := CONTIN_RUN\<rparr>)
             else Some s1)"

definition run_cpu :: "executor \<Rightarrow> executor \<Rightarrow> globals \<Rightarrow> globals option" where
  "run_cpu cpu_z80 cpu_8080 s =
     run_loop cpu_z80 cpu_8080 (s\<lparr>cpu_state := CONTIN_RUN, cpu_error := NONE\<rparr>)"

definition start_bus_request :: "BusDMA_t \<Rightarrow> bus_master_t \<Rightarrow> globals \<Rightarrow> globals" where
  "start_bus_request mode bus_master s =
     s\<lparr>bus_mode := mode, dma_bus_master := bus_master, bus_request := 1\<rparr>"

definition end_bus_request :: "globals \<Rightarrow> globals" where
  "end_bus_request s =
     s\<lparr>bus_mode := BUS_DMA_NONE, dma_bus_master := None, bus_request := 0\<rparr>"

section \<open>Front-panel power switch (simctl.c)\<close>

text \<open>
  \<open>power_clicked\<close> is the handler of the Altair control module, \<open>power_clicked_z1\<close>
  the one of the Cromemco Z-1 control module, where the switch positions are the other
  way round. The memory read (\<^verbatim>\<open>fp_read\<close>, \<^verbatim>\<open>getmem\<close>) belongs to the memory
  module and is an argument. Clearing the terminal leaves the state untouched.
  \<open>quit_callback\<close> is the same in both modules.
\<close>

definition power_clicked :: "(WORD \<Rightarrow> BYTE) \<Rightarrow> int \<Rightarrow> int \<Rightarrow> globals \<Rightarrow> globals" where
  "power_clicked fp_read state val s =
    (if state = FP_SW_DOWN then
       (if power s \<noteq> 0 then s
        else s\<lparr>power := power s + 1,
               cpu_bus := CPU_WO OR CPU_M1 OR CPU_MEMR,
               fp_led_address := PC s,
               fp_led_data := fp_read (PC s),
               fp_led_wait := 1\<rparr>)
     else if state = FP_SW_UP then
       (if power s = 0 then s
        else s\<lparr>power := power s - 1,
               cpu_switch := 0,
               cpu_state := STOPPED,
               cpu_error := POWEROFF\<rparr>)
     else s)"

definition power_clicked_z1 :: "(WORD \<Rightarrow> BYTE) \<Rightarrow> int \<Rightarrow> int \<Rightarrow> globals \<Rightarrow> globals" where
  "power_clicked_z1 getmem state val s =
    (if state = FP_SW_UP then
       (if power s \<noteq> 0 then s
        else s\<lparr>power := power s + 1,
               cpu_bus := CPU_WO OR CPU_M1 OR CPU_MEMR,
               fp_led_address := PC s,
               fp_led_data := getmem (PC s),
               fp_led_speed := (if f_flag s = 0 \<or> f_flag s \<ge> 4 then 1 else 0),
               fp_led_wait := 1,
               fp_led_output := 0\<rparr>)
     else if state = FP_SW_DOWN then
       (if power s = 0 then s
        else s\<lparr>power := power s - 1,
               cpu_switch := 0,
               cpu_state := STOPPED,
               cpu_error := POWEROFF\<rparr>)
     else s)"

definition quit_callback :: "globals \<Rightarrow> globals" where
  "quit_callback s =
     s\<lparr>power := power s - 1,
       cpu_switch := 0,
       cpu_state := STOPPED,
       cpu_error := POWEROFF\<rparr>"

text \<open>
  The condition of the loop in \<^verbatim>\<open>mon\<close> that operates the machine from the front
  panel: \<^verbatim>\<open>while (cpu_error == NONE)\<close>.
\<close>

definition mon_loop_cond :: "globals \<Rightarrow> bool" where
  "mon_loop_cond s = (cpu_error s = NONE)"

text \<open>
  \<^verbatim>\<open>run_cpu\<close> of the Altair control module (a static function of
  \<^verbatim>\<open>simctl.c\<close>, which does not use the one of \<^verbatim>\<open>simcore.c\<close>): it calls the
  executor of the selected model once, without a loop, and then reports the error,
  which only prints.
\<close>

definition run_cpu_altair :: "executor \<Rightarrow> executor \<Rightarrow> globals \<Rightarrow> globals option" where
  "run_cpu_altair cpu_z80 cpu_8080 s =
     run_dispatch cpu_z80 cpu_8080 (s\<lparr>cpu_state := CONTIN_RUN, cpu_error := NONE\<rparr>)"

text \<open>
  \<^verbatim>\<open>mon\<close> registers \<^verbatim>\<open>power_clicked\<close> as the callback of the switch
  \<^verbatim>\<open>SW_PWR\<close> and \<^verbatim>\<open>quit_callback\<close> as the callback for closing the panel
  window. A panel event is what the panel reports: nothing, the power switch moved to a
  position (with the second argument of the callback), or the window closed.
  \<open>altair_panel\<close> and \<open>z1_panel\<close> call the callback that the Altair and the
  Cromemco Z-1 module registered for the event.
\<close>

datatype panel_event = No_event | Power_switch int int | Window_closed

fun altair_panel :: "(WORD \<Rightarrow> BYTE) \<Rightarrow> panel_event \<Rightarrow> globals \<Rightarrow> globals" where
  "altair_panel fp_read No_event s = s"
| "altair_panel fp_read (Power_switch state val) s = power_clicked fp_read state val s"
| "altair_panel fp_read Window_closed s = quit_callback s"

fun z1_panel :: "(WORD \<Rightarrow> BYTE) \<Rightarrow> panel_event \<Rightarrow> globals \<Rightarrow> globals" where
  "z1_panel getmem No_event s = s"
| "z1_panel getmem (Power_switch state val) s = power_clicked_z1 getmem state val s"
| "z1_panel getmem Window_closed s = quit_callback s"

section \<open>The executor loop\<close>

text \<open>
  Modelled from the spec: the executors \<^verbatim>\<open>cpu_z80\<close> and \<^verbatim>\<open>cpu_8080\<close> are
  declared \<^verbatim>\<open>extern\<close> in \<^verbatim>\<open>simcore.c\<close>; the modules that define them are not
  part of the sources at hand. The spec says of the executor: it "runs until
  \<open>cpu_state \<noteq> ContinRun\<close>; each iteration executes one instruction"; a single step
  "executes exactly one instruction with \<open>cpu_state = SingleStep\<close>", so the test comes
  after the instruction; and it "polls \<open>cpu_state\<close> at each instruction boundary;
  setting it to Stopped from any source (signal handler, UI thread) causes \<open>run()\<close> to
  return at the next boundary".

  \<open>instr\<close> is the effect of one instruction on the state, whatever the instruction is.
  \<open>panel k\<close> is what the panel thread writes while instruction number \<open>k\<close> of the run
  executes; its writes are taken as in place when the boundary after that instruction is
  reached. An instruction that overwrites \<open>cpu_state\<close> or \<open>cpu_error\<close> after the panel
  thread wrote them within the same instruction is a race that this sequential model does
  not describe. A loop that never leaves \<open>CONTIN_RUN\<close> has the value \<open>None\<close>.
\<close>

partial_function (option) executor_loop ::
    "(globals \<Rightarrow> globals) \<Rightarrow> (nat \<Rightarrow> globals \<Rightarrow> globals) \<Rightarrow> nat \<Rightarrow> globals \<Rightarrow> globals option" where
  "executor_loop instr panel k s =
     (if cpu_state (panel k (instr s)) = CONTIN_RUN
      then executor_loop instr panel (Suc k) (panel k (instr s))
      else Some (panel k (instr s)))"

text \<open>
  The executor of a machine with an Altair or a Cromemco Z-1 panel on which the events
  \<open>evs\<close> happen, instruction by instruction.
\<close>

definition altair_cpu ::
    "(globals \<Rightarrow> globals) \<Rightarrow> (WORD \<Rightarrow> BYTE) \<Rightarrow> (nat \<Rightarrow> panel_event) \<Rightarrow> executor" where
  "altair_cpu instr fp_read evs = executor_loop instr (\<lambda>k. altair_panel fp_read (evs k)) 0"

definition z1_cpu ::
    "(globals \<Rightarrow> globals) \<Rightarrow> (WORD \<Rightarrow> BYTE) \<Rightarrow> (nat \<Rightarrow> panel_event) \<Rightarrow> executor" where
  "z1_cpu instr getmem evs = executor_loop instr (\<lambda>k. z1_panel getmem (evs k)) 0"

section \<open>Sample inputs\<close>

text \<open>
  A concrete state (every variable zero, no interrupt data, CPU model Z80) and a concrete
  sequence of \<^verbatim>\<open>rand()\<close> results, for evaluating the functions.
\<close>

definition sample_state :: globals where
  "sample_state =
    \<lparr>cpu = Z80, A = 0, B = 0, C = 0, D = 0, E = 0, H = 0, L = 0, F = 0,
     IX = 0, IY = 0, WZ = 0,
     A' = 0, B' = 0, C' = 0, D' = 0, E' = 0, H' = 0, L' = 0,
     I = 0, R = 0, R' = 0, F' = 0, PC = 0, SP = 0, IFF = 0, T = 0,
     cpu_bus = 0, cpu_state = STOPPED, cpu_error = NONE,
     int_mode = 0, int_nmi = 0, int_int = 0, int_data = - 1, int_protection = 0,
     bus_request = 0, bus_mode = BUS_DMA_NONE, dma_bus_master = None,
     f_flag = 0, power = 0, cpu_switch = 0,
     fp_led_wait = 0, fp_led_speed = 0, fp_led_address = 0, fp_led_data = 0,
     fp_led_output = 255\<rparr>"

definition sample_rand :: "nat \<Rightarrow> nat" where
  "sample_rand k = 1000 * k + 255"

text \<open>A memory that holds the HALT opcode everywhere.\<close>

definition sample_mem :: "WORD \<Rightarrow> BYTE" where
  "sample_mem a = 118"

text \<open>
  Two executors: a Z80 run that ends in a switch to the 8080 model, and an 8080 run that
  ends with the CPU stopped.
\<close>

definition sample_z80 :: executor where
  "sample_z80 s = Some (switch_cpu I8080 s)"

definition sample_8080 :: executor where
  "sample_8080 s = Some (s\<lparr>cpu_state := STOPPED\<rparr>)"

text \<open>
  An instruction that only advances the program counter, and two event sequences: the
  power switch is moved to the off position of the Altair panel (up) or of the Z-1 panel
  (down) while the second instruction of the run executes.
\<close>

definition sample_instr :: "globals \<Rightarrow> globals" where
  "sample_instr s = s\<lparr>PC := PC s + 1\<rparr>"

definition sample_events_altair :: "nat \<Rightarrow> panel_event" where
  "sample_events_altair k = (if k = 1 then Power_switch FP_SW_UP 0 else No_event)"

definition sample_events_z1 :: "nat \<Rightarrow> panel_event" where
  "sample_events_z1 k = (if k = 1 then Power_switch FP_SW_DOWN 0 else No_event)"

section \<open>Auxiliary facts\<close>

lemmas flag_defs =
  S_FLAG_def Z_FLAG_def Y_FLAG_def H_FLAG_def X_FLAG_def P_FLAG_def N_FLAG_def C_FLAG_def

text \<open>A property of all bytes follows from its 256 instances.\<close>

lemma byte_cases:
  fixes r :: BYTE
  assumes "\<forall>k \<in> set [0..<256]. Q (of_nat k :: BYTE)"
  shows "Q r"
proof -
  have "unat r < 256"
    using unsigned_less [of r] by simp
  then have "unat r \<in> set [0..<256]"
    by simp
  with assms have "Q (of_nat (unat r) :: BYTE)"
    by blast
  then show ?thesis
    by simp
qed

text \<open>
  The statement pair \<^verbatim>\<open>F &= ~(Y_FLAG | X_FLAG); F |= N_FLAG;\<close> sets N, clears Y and
  X, and leaves the other bits of \<open>f\<close> alone.
\<close>

lemma force_N: "((f AND NOT (Y_FLAG OR X_FLAG)) OR N_FLAG) AND N_FLAG \<noteq> 0"
  by (simp add: flag_defs bit.conj_disj_distrib2 or_eq_0_iff)

lemma force_Y: "((f AND NOT (Y_FLAG OR X_FLAG)) OR N_FLAG) AND Y_FLAG = 0"
  by (simp add: flag_defs bit.conj_disj_distrib2 and.assoc)

lemma force_X: "((f AND NOT (Y_FLAG OR X_FLAG)) OR N_FLAG) AND X_FLAG = 0"
  by (simp add: flag_defs bit.conj_disj_distrib2 and.assoc)

lemma force_frame:
  "((f AND NOT (Y_FLAG OR X_FLAG)) OR N_FLAG) AND NOT (N_FLAG OR Y_FLAG OR X_FLAG)
     = f AND NOT (N_FLAG OR Y_FLAG OR X_FLAG)"
  by (simp add: flag_defs bit.conj_disj_distrib2 and.assoc)

text \<open>One pass through the body of the loop of \<^verbatim>\<open>run_cpu\<close>.\<close>

lemma run_loop_step:
  "run_dispatch cpu_z80 cpu_8080 s = Some s1 \<Longrightarrow>
   run_loop cpu_z80 cpu_8080 s =
     (if cpu_state s1 = MODEL_SWITCH
      then run_loop cpu_z80 cpu_8080 (s1\<lparr>cpu_state := CONTIN_RUN\<rparr>)
      else Some s1)"
  by (subst run_loop.simps) simp

lemma run_loop_no_return:
  "run_dispatch cpu_z80 cpu_8080 s = None \<Longrightarrow> run_loop cpu_z80 cpu_8080 s = None"
  by (subst run_loop.simps) simp

text \<open>One pass through the executor loop, and a stretch of instructions without events.\<close>

lemma executor_loop_exit:
  "cpu_state (panel k (instr s)) \<noteq> CONTIN_RUN \<Longrightarrow>
   executor_loop instr panel k s = Some (panel k (instr s))"
  by (subst executor_loop.simps) simp

lemma executor_loop_continue:
  "cpu_state (panel k (instr s)) = CONTIN_RUN \<Longrightarrow>
   executor_loop instr panel k s = executor_loop instr panel (Suc k) (panel k (instr s))"
  by (subst executor_loop.simps) simp

lemma executor_loop_quiet:
  assumes "\<And>j. j < n \<Longrightarrow>
             panel (k + j) ((instr ^^ Suc j) s) = (instr ^^ Suc j) s \<and>
             cpu_state ((instr ^^ Suc j) s) = CONTIN_RUN"
  shows "executor_loop instr panel k s = executor_loop instr panel (k + n) ((instr ^^ n) s)"
  using assms
proof (induction n arbitrary: k s)
  case 0
  show ?case by simp
next
  case (Suc n)
  from Suc.prems [of 0]
  have first: "panel k (instr s) = instr s" "cpu_state (instr s) = CONTIN_RUN"
    by simp_all
  have "executor_loop instr panel k s = executor_loop instr panel (Suc k) (instr s)"
    using executor_loop_continue [of panel k instr s] first by simp
  also have "\<dots> = executor_loop instr panel (Suc k + n) ((instr ^^ n) (instr s))"
  proof (rule Suc.IH)
    fix j
    assume "j < n"
    then have "Suc j < Suc n"
      by simp
    from Suc.prems [OF this]
    show "panel (Suc k + j) ((instr ^^ Suc j) (instr s)) = (instr ^^ Suc j) (instr s) \<and>
          cpu_state ((instr ^^ Suc j) (instr s)) = CONTIN_RUN"
      by (simp add: funpow_swap1)
  qed
  finally show ?case
    by (simp add: funpow_swap1)
qed

text \<open>
  After \<open>n\<close> instructions without an event that leave the CPU running, an event that
  takes \<open>cpu_state\<close> away from \<open>CONTIN_RUN\<close> makes the executor return at the boundary
  of the instruction in progress.
\<close>

lemma executor_loop_returns:
  assumes "\<And>j. j < n \<Longrightarrow>
             panel j ((instr ^^ Suc j) u) = (instr ^^ Suc j) u \<and>
             cpu_state ((instr ^^ Suc j) u) = CONTIN_RUN"
    and "cpu_state (panel n ((instr ^^ Suc n) u)) \<noteq> CONTIN_RUN"
  shows "executor_loop instr panel 0 u = Some (panel n ((instr ^^ Suc n) u))"
proof -
  have "executor_loop instr panel 0 u = executor_loop instr panel (0 + n) ((instr ^^ n) u)"
    by (rule executor_loop_quiet) (use assms(1) in simp)
  also have "\<dots> = Some (panel n (instr ((instr ^^ n) u)))"
    using executor_loop_exit [of panel n instr "(instr ^^ n) u"] assms(2) by simp
  finally show ?thesis
    by simp
qed

text \<open>The writes of the callbacks in their power-off case.\<close>

lemma altair_panel_off:
  assumes "(ev = Power_switch FP_SW_UP val \<and> power x \<noteq> 0) \<or> ev = Window_closed"
  shows "cpu_error (altair_panel fp_read ev x) = POWEROFF \<and>
         cpu_state (altair_panel fp_read ev x) = STOPPED"
  using assms
  by (auto simp: power_clicked_def quit_callback_def FP_SW_UP_def FP_SW_DOWN_def)

lemma z1_panel_off:
  assumes "(ev = Power_switch FP_SW_DOWN val \<and> power x \<noteq> 0) \<or> ev = Window_closed"
  shows "cpu_error (z1_panel getmem ev x) = POWEROFF \<and>
         cpu_state (z1_panel getmem ev x) = STOPPED"
  using assms
  by (auto simp: power_clicked_z1_def quit_callback_def FP_SW_UP_def FP_SW_DOWN_def)

section \<open>The flag tables\<close>

text \<open>Each table has 256 entries, so a lookup with a byte index stays inside it.\<close>

lemma table_lengths:
  "length parity = 256" "length szp_flags = 256"
  "length szyx_flags = 256" "length szyxp_flags = 256"
  by (simp_all add: parity_def szp_flags_def szyx_flags_def szyxp_flags_def Let_def)

text \<open>
  The parity table of the source holds 0 for a byte with an even number of 1-bits and 1
  for a byte with an odd number.
\<close>

lemma parity_table: "parity ! unat r = (if even (popcount r) then 0 else 1)"
  by (rule byte_cases [of _ r]) code_simp

text \<open>
  Claim C1. For every 8-bit value \<open>r\<close>, the entry \<^verbatim>\<open>szp_flags[r]\<close> has the Z bit set
  exactly when \<open>r\<close> is 0, the S bit set exactly when bit 7 of \<open>r\<close> is 1, the P bit set
  exactly when \<open>r\<close> has an even number of 1-bits, and no bit other than S, Z and P set.
\<close>

theorem szp_flags_correct:
  "(lookup szp_flags r AND Z_FLAG \<noteq> 0 \<longleftrightarrow> r = 0) \<and>
   (lookup szp_flags r AND S_FLAG \<noteq> 0 \<longleftrightarrow> bit r 7) \<and>
   (lookup szp_flags r AND P_FLAG \<noteq> 0 \<longleftrightarrow> even (popcount r)) \<and>
   lookup szp_flags r AND NOT (S_FLAG OR Z_FLAG OR P_FLAG) = 0"
  by (rule byte_cases [of _ r]) code_simp

text \<open>
  Claim C2. For every 8-bit value \<open>b\<close>, the entries \<^verbatim>\<open>szyx_flags[b]\<close> and
  \<^verbatim>\<open>szyxp_flags[b]\<close> have the Y bit set exactly when bit 5 of \<open>b\<close> is 1 and the X bit
  set exactly when bit 3 of \<open>b\<close> is 1.
\<close>

theorem szyx_flags_correct:
  "(lookup szyx_flags b AND Y_FLAG \<noteq> 0 \<longleftrightarrow> bit b 5) \<and>
   (lookup szyx_flags b AND X_FLAG \<noteq> 0 \<longleftrightarrow> bit b 3) \<and>
   (lookup szyxp_flags b AND Y_FLAG \<noteq> 0 \<longleftrightarrow> bit b 5) \<and>
   (lookup szyxp_flags b AND X_FLAG \<noteq> 0 \<longleftrightarrow> bit b 3)"
  by (rule byte_cases [of _ b]) code_simp

section \<open>The 8080 flag convention in this module\<close>

text \<open>
  With the model selected as I8080, \<^verbatim>\<open>init_cpu\<close> leaves \<open>F\<close> with N set and Y, X
  clear, and so does a switch from another model to I8080. What the 8080 executor does to
  \<open>F\<close> instruction by instruction is decided in another module.
\<close>

lemma init_cpu_i8080_flags:
  assumes "cpu s = I8080"
  shows "F (init_cpu rand s) AND N_FLAG \<noteq> 0 \<and>
         F (init_cpu rand s) AND Y_FLAG = 0 \<and>
         F (init_cpu rand s) AND X_FLAG = 0"
  using assms
  by (simp add: init_cpu_def Let_def force_N force_Y force_X
      del: bit.de_Morgan_disj bit.de_Morgan_conj)

lemma switch_cpu_i8080_flags:
  assumes "cpu s \<noteq> I8080"
  shows "cpu (switch_cpu I8080 s) = I8080 \<and>
         F (switch_cpu I8080 s) AND N_FLAG \<noteq> 0 \<and>
         F (switch_cpu I8080 s) AND Y_FLAG = 0 \<and>
         F (switch_cpu I8080 s) AND X_FLAG = 0"
  using assms
  by (simp add: switch_cpu_def Let_def Z80_def I8080_def force_N force_Y force_X
      del: bit.de_Morgan_disj bit.de_Morgan_conj)

section \<open>Reset and power-on initialisation\<close>

text \<open>
  Claim C4. \<^verbatim>\<open>reset_cpu\<close> clears \<open>IFF\<close>, the pending interrupt request
  \<open>int_int\<close> and the EI delay \<open>int_protection\<close>, puts the interrupt data back to "no
  byte on the bus" (the value -1) and forces \<open>PC\<close> to 0; with the Z80 compiled in it
  also resets \<open>I\<close>, \<open>R\<close>, the latch for bit 7 of \<open>R\<close>, the NMI request and the
  interrupt mode to 0.
\<close>

theorem reset_cpu_clears:
  "IFF (reset_cpu s) = 0 \<and> int_int (reset_cpu s) = 0 \<and> int_protection (reset_cpu s) = 0 \<and>
   int_data (reset_cpu s) = - 1 \<and> PC (reset_cpu s) = 0 \<and>
   I (reset_cpu s) = 0 \<and> R (reset_cpu s) = 0 \<and> R' (reset_cpu s) = 0 \<and>
   int_nmi (reset_cpu s) = 0 \<and> int_mode (reset_cpu s) = 0"
  by (simp add: reset_cpu_def)

text \<open>
  Claim C5, as the code has it. \<^verbatim>\<open>init_cpu\<close> sets \<open>PC\<close> and \<open>I\<close> to 0 and leaves
  \<open>IFF\<close>, \<open>R\<close> and the latch for bit 7 of \<open>R\<close> as they were. \<open>SP\<close>, \<open>A\<close> to \<open>L\<close>,
  the alternate registers, \<open>IX\<close>, \<open>IY\<close> and \<open>WZ\<close> each receive the result of a
  \<^verbatim>\<open>rand()\<close> call of their own, reduced to the width of the register. \<open>F\<close> receives
  such a result modulo 256, with Y and X cleared and N set when the model is I8080.
\<close>

theorem init_cpu_effect:
  "(let t = init_cpu rand s in
     PC t = 0 \<and> I t = 0 \<and>
     IFF t = IFF s \<and> R t = R s \<and> R' t = R' s \<and> cpu t = cpu s \<and>
     SP t = of_nat (rand 0 mod 65536) \<and>
     A t = of_nat (rand 1 mod 256) \<and> B t = of_nat (rand 2 mod 256) \<and>
     C t = of_nat (rand 3 mod 256) \<and> D t = of_nat (rand 4 mod 256) \<and>
     E t = of_nat (rand 5 mod 256) \<and> H t = of_nat (rand 6 mod 256) \<and>
     L t = of_nat (rand 7 mod 256) \<and>
     F t = (if cpu s = I8080
            then (int (rand 8 mod 256) AND NOT (Y_FLAG OR X_FLAG)) OR N_FLAG
            else int (rand 8 mod 256)) \<and>
     A' t = of_nat (rand 9 mod 256) \<and> B' t = of_nat (rand 10 mod 256) \<and>
     C' t = of_nat (rand 11 mod 256) \<and> D' t = of_nat (rand 12 mod 256) \<and>
     E' t = of_nat (rand 13 mod 256) \<and> H' t = of_nat (rand 14 mod 256) \<and>
     L' t = of_nat (rand 15 mod 256) \<and> F' t = int (rand 16 mod 256) \<and>
     IX t = of_nat (rand 17 mod 65536) \<and> IY t = of_nat (rand 18 mod 65536) \<and>
     WZ t = of_nat (rand 19 mod 65536))"
  by (simp add: init_cpu_def Let_def del: bit.de_Morgan_disj bit.de_Morgan_conj)

text \<open>
  The claim as written fails: started with interrupts enabled, \<open>I = 7\<close> and \<open>R = 5\<close>,
  \<^verbatim>\<open>init_cpu\<close> returns with \<open>IFF\<close> still 1, with \<open>I = 0\<close> and with \<open>R\<close> still 5.
\<close>

theorem init_cpu_counterexample:
  "IFF (init_cpu sample_rand (sample_state\<lparr>I := 7, R := 5, IFF := 1\<rparr>)) \<noteq> 0 \<and>
   I (init_cpu sample_rand (sample_state\<lparr>I := 7, R := 5, IFF := 1\<rparr>)) = 0 \<and>
   R (init_cpu sample_rand (sample_state\<lparr>I := 7, R := 5, IFF := 1\<rparr>)) = 5"
  by (simp add: init_cpu_def Let_def sample_state_def Z80_def I8080_def)

section \<open>Switching the CPU model\<close>

text \<open>
  Claim C6. For every state, \<^verbatim>\<open>switch_cpu\<close> changes nothing but \<open>F\<close>, the model tag
  \<open>cpu\<close> and \<open>cpu_state\<close>; of \<open>F\<close> only the bits N, Y and X can change; and a switch
  from another model to I8080 leaves N set and Y, X clear.
\<close>

theorem switch_cpu_frame:
  "(switch_cpu new_cpu s)\<lparr>F := F s, cpu := cpu s, cpu_state := cpu_state s\<rparr> = s \<and>
   F (switch_cpu new_cpu s) AND NOT (N_FLAG OR Y_FLAG OR X_FLAG)
     = F s AND NOT (N_FLAG OR Y_FLAG OR X_FLAG) \<and>
   (cpu s \<noteq> I8080 \<and> new_cpu = I8080 \<longrightarrow>
      F (switch_cpu new_cpu s) AND N_FLAG \<noteq> 0 \<and>
      F (switch_cpu new_cpu s) AND Y_FLAG = 0 \<and>
      F (switch_cpu new_cpu s) AND X_FLAG = 0 \<and>
      cpu (switch_cpu new_cpu s) = I8080 \<and>
      cpu_state (switch_cpu new_cpu s) = MODEL_SWITCH)"
  by (simp add: switch_cpu_def Let_def force_N force_Y force_X force_frame Z80_def I8080_def
      del: bit.de_Morgan_disj bit.de_Morgan_conj)

theorem switch_cpu_frame_witness:
  "cpu (sample_state\<lparr>F := 255\<rparr>) \<noteq> I8080 \<and>
   F (switch_cpu I8080 (sample_state\<lparr>F := 255\<rparr>)) AND N_FLAG \<noteq> 0 \<and>
   F (switch_cpu I8080 (sample_state\<lparr>F := 255\<rparr>)) AND Y_FLAG = 0 \<and>
   F (switch_cpu I8080 (sample_state\<lparr>F := 255\<rparr>)) AND X_FLAG = 0 \<and>
   cpu (switch_cpu I8080 (sample_state\<lparr>F := 255\<rparr>)) = I8080 \<and>
   cpu_state (switch_cpu I8080 (sample_state\<lparr>F := 255\<rparr>)) = MODEL_SWITCH \<and>
   F (switch_cpu I8080 (sample_state\<lparr>F := 255\<rparr>)) = 215"
proof -
  have c: "cpu (sample_state\<lparr>F := 255\<rparr>) \<noteq> I8080"
    by (simp add: sample_state_def Z80_def I8080_def)
  have f: "F (switch_cpu I8080 (sample_state\<lparr>F := 255\<rparr>)) = 215"
    by (simp add: switch_cpu_def Let_def sample_state_def Z80_def I8080_def flag_defs)
  show ?thesis
    using c f switch_cpu_frame [where new_cpu = I8080 and s = "sample_state\<lparr>F := 255\<rparr>"] by simp
qed

text \<open>
  Claim C10. \<^verbatim>\<open>switch_cpu\<close> called with the model that is already selected leaves
  the whole state as it is; in particular \<open>F\<close> is not modified and \<open>cpu_state\<close> is not
  set to \<open>MODEL_SWITCH\<close>.
\<close>

theorem switch_cpu_same_model:
  "switch_cpu (cpu s) s = s \<and>
   F (switch_cpu (cpu s) s) = F s \<and>
   cpu_state (switch_cpu (cpu s) s) = cpu_state s"
  by (simp add: switch_cpu_def)

section \<open>The run loop\<close>

text \<open>
  Claim C7. In \<^verbatim>\<open>run_cpu\<close>, when the executor of the selected model has returned
  (with state \<open>s1\<close>) and \<open>cpu_state\<close> is \<open>MODEL_SWITCH\<close>, the loop sets \<open>cpu_state\<close>
  back to \<open>CONTIN_RUN\<close> and goes round again, dispatching on the model selected in
  \<open>s1\<close>; for every other value of \<open>cpu_state\<close> it returns \<open>s1\<close>. The loop is entered
  with \<open>cpu_state = CONTIN_RUN\<close> and \<open>cpu_error = NONE\<close>.
\<close>

theorem run_cpu_model_switch:
  assumes "run_dispatch cpu_z80 cpu_8080 s = Some s1"
  shows "(cpu_state s1 = MODEL_SWITCH \<longrightarrow>
            run_loop cpu_z80 cpu_8080 s
              = run_loop cpu_z80 cpu_8080 (s1\<lparr>cpu_state := CONTIN_RUN\<rparr>) \<and>
            run_dispatch cpu_z80 cpu_8080 (s1\<lparr>cpu_state := CONTIN_RUN\<rparr>)
              = (if cpu s1 = Z80 then cpu_z80 (s1\<lparr>cpu_state := CONTIN_RUN\<rparr>)
                 else if cpu s1 = I8080 then cpu_8080 (s1\<lparr>cpu_state := CONTIN_RUN\<rparr>)
                 else Some (s1\<lparr>cpu_state := CONTIN_RUN\<rparr>))) \<and>
         (cpu_state s1 \<noteq> MODEL_SWITCH \<longrightarrow> run_loop cpu_z80 cpu_8080 s = Some s1) \<and>
         run_cpu cpu_z80 cpu_8080 s0
           = run_loop cpu_z80 cpu_8080 (s0\<lparr>cpu_state := CONTIN_RUN, cpu_error := NONE\<rparr>)"
  using run_loop_step [OF assms] by (simp add: run_dispatch_def run_cpu_def)

text \<open>
  A run that starts on the Z80, switches to the 8080 and stops there: \<^verbatim>\<open>run_cpu\<close>
  goes round the loop once more after the switch and returns when the 8080 executor
  hands back a stopped CPU.
\<close>

theorem run_cpu_model_switch_witness:
  "run_cpu sample_z80 sample_8080 sample_state
     = Some (sample_state\<lparr>F := 2, cpu := I8080, cpu_state := STOPPED\<rparr>)"
proof -
  let ?s0 = "sample_state\<lparr>cpu_state := CONTIN_RUN, cpu_error := NONE\<rparr>"
  let ?s1 = "switch_cpu I8080 ?s0"
  let ?s2 = "?s1\<lparr>cpu_state := CONTIN_RUN\<rparr>"
  let ?s3 = "?s2\<lparr>cpu_state := STOPPED\<rparr>"
  have d1: "run_dispatch sample_z80 sample_8080 ?s0 = Some ?s1"
    by (simp add: run_dispatch_def sample_z80_def sample_state_def)
  have m1: "cpu_state ?s1 = MODEL_SWITCH"
    by (simp add: switch_cpu_def sample_state_def Z80_def I8080_def)
  have d2: "run_dispatch sample_z80 sample_8080 ?s2 = Some ?s3"
    by (simp add: run_dispatch_def sample_8080_def switch_cpu_def sample_state_def
        Z80_def I8080_def)
  have m2: "cpu_state ?s3 \<noteq> MODEL_SWITCH"
    by (simp add: STOPPED_def MODEL_SWITCH_def)
  have "run_cpu sample_z80 sample_8080 sample_state = run_loop sample_z80 sample_8080 ?s0"
    using run_cpu_model_switch [OF d1, of sample_state] by simp
  also have "\<dots> = run_loop sample_z80 sample_8080 ?s2"
    using run_cpu_model_switch [OF d1, of sample_state] m1 by simp
  also have "\<dots> = Some ?s3"
    using run_cpu_model_switch [OF d2, of sample_state] m2 by simp
  also have "?s3 = sample_state\<lparr>F := 2, cpu := I8080, cpu_state := STOPPED\<rparr>"
    by (simp add: switch_cpu_def sample_state_def Z80_def I8080_def NONE_def flag_defs)
  finally show ?thesis .
qed

section \<open>Power off\<close>

text \<open>
  Claim C8. When the power switch is moved to its off position while the machine is
  powered on, or the panel window is closed, the callback leaves
  \<open>cpu_error = POWEROFF\<close> and \<open>cpu_state = STOPPED\<close>; the executor returns at the
  boundary of the instruction in progress, \<^verbatim>\<open>run_cpu\<close> returns, and the loop of
  \<^verbatim>\<open>mon\<close> that operates the machine ends, with the error \<open>POWEROFF\<close>.

  The run is one call of the executor of the selected model from the state \<open>u\<close>: \<open>n\<close>
  instructions execute without a panel event and leave the CPU running, and the event
  \<open>evs n\<close> happens while the next instruction executes. \<open>t\<close> is the state after that
  instruction and the callback. On the Altair the off position is up and
  \<^verbatim>\<open>run_cpu\<close> is the one of the control module; on the Cromemco Z-1 the off position
  is down and \<^verbatim>\<open>run_cpu\<close> is the one of \<^verbatim>\<open>simcore.c\<close>, whose loop may be at
  any of its passes.
\<close>

theorem power_off_stops:
  assumes "\<forall>j<n. evs j = No_event \<and> cpu_state ((instr ^^ Suc j) u) = CONTIN_RUN"
    and "(cpu u = Z80 \<and> instr = instr_z80) \<or> (cpu u = I8080 \<and> instr = instr_8080)"
  shows
    "((evs n = Power_switch FP_SW_UP val \<and> power ((instr ^^ Suc n) u) \<noteq> 0) \<or>
      evs n = Window_closed \<longrightarrow>
        (let t = altair_panel fp_read (evs n) ((instr ^^ Suc n) u);
             cpu_z80 = altair_cpu instr_z80 fp_read evs;
             cpu_8080 = altair_cpu instr_8080 fp_read evs
         in cpu_error t = POWEROFF \<and> cpu_state t = STOPPED \<and>
            run_dispatch cpu_z80 cpu_8080 u = Some t \<and>
            (u = s0\<lparr>cpu_state := CONTIN_RUN, cpu_error := NONE\<rparr> \<longrightarrow>
               run_cpu_altair cpu_z80 cpu_8080 s0 = Some t) \<and>
            \<not> mon_loop_cond t)) \<and>
     ((evs n = Power_switch FP_SW_DOWN val \<and> power ((instr ^^ Suc n) u) \<noteq> 0) \<or>
      evs n = Window_closed \<longrightarrow>
        (let t = z1_panel getmem (evs n) ((instr ^^ Suc n) u);
             cpu_z80 = z1_cpu instr_z80 getmem evs;
             cpu_8080 = z1_cpu instr_8080 getmem evs
         in cpu_error t = POWEROFF \<and> cpu_state t = STOPPED \<and>
            run_loop cpu_z80 cpu_8080 u = Some t \<and>
            (u = s0\<lparr>cpu_state := CONTIN_RUN, cpu_error := NONE\<rparr> \<longrightarrow>
               run_cpu cpu_z80 cpu_8080 s0 = Some t) \<and>
            \<not> mon_loop_cond t))"
proof -
  let ?x = "(instr ^^ Suc n) u"
  let ?ta = "altair_panel fp_read (evs n) ?x"
  let ?tz = "z1_panel getmem (evs n) ?x"
  let ?enter = "s0\<lparr>cpu_state := CONTIN_RUN, cpu_error := NONE\<rparr>"
  have stopped: "cpu_state t \<noteq> CONTIN_RUN \<and> cpu_state t \<noteq> MODEL_SWITCH"
    if "cpu_state t = STOPPED" for t :: globals
    using that by (simp add: STOPPED_def CONTIN_RUN_def MODEL_SWITCH_def)
  have ended: "\<not> mon_loop_cond t" if "cpu_error t = POWEROFF" for t
    using that by (simp add: mon_loop_cond_def NONE_def POWEROFF_def)
  have selected: "run_dispatch (X instr_z80) (X instr_8080) u = X instr u"
    for X :: "(globals \<Rightarrow> globals) \<Rightarrow> executor"
    using assms(2) by (auto simp: run_dispatch_def Z80_def I8080_def)
  have altair:
    "cpu_error ?ta = POWEROFF \<and> cpu_state ?ta = STOPPED \<and>
     run_dispatch (altair_cpu instr_z80 fp_read evs) (altair_cpu instr_8080 fp_read evs) u
       = Some ?ta \<and>
     (u = ?enter \<longrightarrow>
        run_cpu_altair (altair_cpu instr_z80 fp_read evs) (altair_cpu instr_8080 fp_read evs) s0
          = Some ?ta) \<and>
     \<not> mon_loop_cond ?ta"
    if off: "(evs n = Power_switch FP_SW_UP val \<and> power ?x \<noteq> 0) \<or> evs n = Window_closed"
  proof -
    from altair_panel_off [OF off]
    have t: "cpu_error ?ta = POWEROFF" "cpu_state ?ta = STOPPED"
      by simp_all
    have "executor_loop instr (\<lambda>k. altair_panel fp_read (evs k)) 0 u = Some ?ta"
      by (rule executor_loop_returns) (use assms(1) stopped [OF t(2)] in simp_all)
    then have "altair_cpu instr fp_read evs u = Some ?ta"
      by (simp add: altair_cpu_def)
    with selected [of "\<lambda>i. altair_cpu i fp_read evs"]
    have d: "run_dispatch (altair_cpu instr_z80 fp_read evs) (altair_cpu instr_8080 fp_read evs) u
               = Some ?ta"
      by simp
    then show ?thesis
      using t ended [OF t(1)] by (auto simp: run_cpu_altair_def)
  qed
  have z1:
    "cpu_error ?tz = POWEROFF \<and> cpu_state ?tz = STOPPED \<and>
     run_loop (z1_cpu instr_z80 getmem evs) (z1_cpu instr_8080 getmem evs) u = Some ?tz \<and>
     (u = ?enter \<longrightarrow>
        run_cpu (z1_cpu instr_z80 getmem evs) (z1_cpu instr_8080 getmem evs) s0 = Some ?tz) \<and>
     \<not> mon_loop_cond ?tz"
    if off: "(evs n = Power_switch FP_SW_DOWN val \<and> power ?x \<noteq> 0) \<or> evs n = Window_closed"
  proof -
    from z1_panel_off [OF off]
    have t: "cpu_error ?tz = POWEROFF" "cpu_state ?tz = STOPPED"
      by simp_all
    have "executor_loop instr (\<lambda>k. z1_panel getmem (evs k)) 0 u = Some ?tz"
      by (rule executor_loop_returns) (use assms(1) stopped [OF t(2)] in simp_all)
    then have "z1_cpu instr getmem evs u = Some ?tz"
      by (simp add: z1_cpu_def)
    with selected [of "\<lambda>i. z1_cpu i getmem evs"]
    have d: "run_dispatch (z1_cpu instr_z80 getmem evs) (z1_cpu instr_8080 getmem evs) u
               = Some ?tz"
      by simp
    from run_loop_step [OF d] stopped [OF t(2)]
    have "run_loop (z1_cpu instr_z80 getmem evs) (z1_cpu instr_8080 getmem evs) u = Some ?tz"
      by simp
    then show ?thesis
      using t ended [OF t(1)] by (auto simp: run_cpu_def)
  qed
  show ?thesis
    unfolding Let_def using altair z1 by blast
qed

text \<open>
  An Altair running the 8080 and a Z-1 running the Z80, both powered on: the first
  instruction executes undisturbed, the power switch is moved to its off position during
  the second, and \<^verbatim>\<open>run_cpu\<close> returns after these two instructions with the CPU
  stopped and the error \<open>POWEROFF\<close>.
\<close>

theorem power_off_stops_witness:
  "run_cpu_altair (altair_cpu sample_instr sample_mem sample_events_altair)
       (altair_cpu sample_instr sample_mem sample_events_altair)
       (sample_state\<lparr>cpu := I8080, power := 1\<rparr>)
     = Some (sample_state\<lparr>cpu := I8080, PC := 2, cpu_state := STOPPED,
               cpu_error := POWEROFF, power := 0\<rparr>) \<and>
   run_cpu (z1_cpu sample_instr sample_mem sample_events_z1)
       (z1_cpu sample_instr sample_mem sample_events_z1)
       (sample_state\<lparr>power := 1\<rparr>)
     = Some (sample_state\<lparr>PC := 2, cpu_state := STOPPED,
               cpu_error := POWEROFF, power := 0\<rparr>) \<and>
   \<not> mon_loop_cond (sample_state\<lparr>PC := 2, cpu_state := STOPPED,
                        cpu_error := POWEROFF, power := 0\<rparr>)"
proof -
  let ?sa = "sample_state\<lparr>cpu := I8080, power := 1\<rparr>"
  let ?ua = "?sa\<lparr>cpu_state := CONTIN_RUN, cpu_error := NONE\<rparr>"
  let ?sz = "sample_state\<lparr>power := 1\<rparr>"
  let ?uz = "?sz\<lparr>cpu_state := CONTIN_RUN, cpu_error := NONE\<rparr>"
  have quiet_a: "\<forall>j<Suc 0. sample_events_altair j = No_event \<and>
      cpu_state ((sample_instr ^^ Suc j) ?ua) = CONTIN_RUN"
    by (simp add: sample_events_altair_def sample_instr_def)
  have model_a: "(cpu ?ua = Z80 \<and> sample_instr = sample_instr) \<or>
      (cpu ?ua = I8080 \<and> sample_instr = sample_instr)"
    by simp
  have off_a: "(sample_events_altair (Suc 0) = Power_switch FP_SW_UP 0 \<and>
      power ((sample_instr ^^ Suc (Suc 0)) ?ua) \<noteq> 0) \<or>
      sample_events_altair (Suc 0) = Window_closed"
    by (simp add: sample_events_altair_def sample_instr_def)
  have quiet_z: "\<forall>j<Suc 0. sample_events_z1 j = No_event \<and>
      cpu_state ((sample_instr ^^ Suc j) ?uz) = CONTIN_RUN"
    by (simp add: sample_events_z1_def sample_instr_def)
  have model_z: "(cpu ?uz = Z80 \<and> sample_instr = sample_instr) \<or>
      (cpu ?uz = I8080 \<and> sample_instr = sample_instr)"
    by (simp add: sample_state_def)
  have off_z: "(sample_events_z1 (Suc 0) = Power_switch FP_SW_DOWN 0 \<and>
      power ((sample_instr ^^ Suc (Suc 0)) ?uz) \<noteq> 0) \<or>
      sample_events_z1 (Suc 0) = Window_closed"
    by (simp add: sample_events_z1_def sample_instr_def)
  have ta: "altair_panel sample_mem (sample_events_altair (Suc 0))
               ((sample_instr ^^ Suc (Suc 0)) ?ua)
             = sample_state\<lparr>cpu := I8080, PC := 2, cpu_state := STOPPED,
                 cpu_error := POWEROFF, power := 0\<rparr>"
    by (simp add: sample_events_altair_def sample_instr_def power_clicked_def
        sample_state_def FP_SW_UP_def FP_SW_DOWN_def NONE_def)
  have tz: "z1_panel sample_mem (sample_events_z1 (Suc 0))
               ((sample_instr ^^ Suc (Suc 0)) ?uz)
             = sample_state\<lparr>PC := 2, cpu_state := STOPPED,
                 cpu_error := POWEROFF, power := 0\<rparr>"
    by (simp add: sample_events_z1_def sample_instr_def power_clicked_z1_def
        sample_state_def FP_SW_UP_def FP_SW_DOWN_def NONE_def)
  from power_off_stops [OF quiet_a model_a, where val = 0 and fp_read = sample_mem
      and ?s0.0 = ?sa] off_a
  have "run_cpu_altair (altair_cpu sample_instr sample_mem sample_events_altair)
          (altair_cpu sample_instr sample_mem sample_events_altair) ?sa
        = Some (altair_panel sample_mem (sample_events_altair (Suc 0))
                 ((sample_instr ^^ Suc (Suc 0)) ?ua))"
    unfolding Let_def by blast
  moreover
  from power_off_stops [OF quiet_z model_z, where val = 0 and getmem = sample_mem
      and ?s0.0 = ?sz] off_z
  have "run_cpu (z1_cpu sample_instr sample_mem sample_events_z1)
          (z1_cpu sample_instr sample_mem sample_events_z1) ?sz
        = Some (z1_panel sample_mem (sample_events_z1 (Suc 0))
                 ((sample_instr ^^ Suc (Suc 0)) ?uz)) \<and>
        \<not> mon_loop_cond (z1_panel sample_mem (sample_events_z1 (Suc 0))
                 ((sample_instr ^^ Suc (Suc 0)) ?uz))"
    unfolding Let_def by blast
  ultimately show ?thesis
    unfolding ta tz by blast
qed

section \<open>Bus requests\<close>

text \<open>
  Claim C9. For every state, \<^verbatim>\<open>start_bus_request\<close> sets \<open>bus_mode\<close> to the given
  mode, \<open>dma_bus_master\<close> to the given callback and \<open>bus_request\<close> to 1, and changes
  nothing else; \<^verbatim>\<open>end_bus_request\<close> sets \<open>bus_mode\<close> to \<open>BUS_DMA_NONE\<close>,
  \<open>dma_bus_master\<close> to \<^verbatim>\<open>NULL\<close> and \<open>bus_request\<close> to 0, and changes nothing else.
  So \<^verbatim>\<open>end_bus_request\<close> is idempotent and releases a pending request whatever mode
  and callback were installed.
\<close>

theorem bus_request_protocol:
  "bus_mode (start_bus_request mode bus_master s) = mode \<and>
   dma_bus_master (start_bus_request mode bus_master s) = bus_master \<and>
   bus_request (start_bus_request mode bus_master s) = 1 \<and>
   (start_bus_request mode bus_master s)
     \<lparr>bus_mode := bus_mode s, dma_bus_master := dma_bus_master s,
      bus_request := bus_request s\<rparr> = s \<and>
   bus_mode (end_bus_request s) = BUS_DMA_NONE \<and>
   dma_bus_master (end_bus_request s) = None \<and>
   bus_request (end_bus_request s) = 0 \<and>
   (end_bus_request s)
     \<lparr>bus_mode := bus_mode s, dma_bus_master := dma_bus_master s,
      bus_request := bus_request s\<rparr> = s \<and>
   end_bus_request (end_bus_request s) = end_bus_request s \<and>
   end_bus_request (start_bus_request mode bus_master s) = end_bus_request s"
  by (simp add: start_bus_request_def end_bus_request_def)

end
